theory Spec2Isabelle
  imports
    Complex_Main
    "HOL-Library.Sublist"
    "HOL-Library.Char_ord"
    "HOL-Library.List_Lexorder"
begin

section \<open>Python values\<close>

text \<open>
  Strings are lists of characters, ordered as Python orders \<open>str\<close>: by code point,
  a proper prefix before its extensions (\<open>Char_ord\<close>, \<open>List_Lexorder\<close>).
\<close>

fun str_nat :: "nat \<Rightarrow> string" where
  "str_nat n =
     (if n < 10 then [char_of (48 + n)]
      else str_nat (n div 10) @ [char_of (48 + n mod 10)])"

declare str_nat.simps [simp del]

definition str_int :: "int \<Rightarrow> string" where
  "str_int i = (if i < 0 then CHR ''-'' # str_nat (nat (- i)) else str_nat (nat i))"

text \<open>The values the routes pass as keyword parameters of a cache key.\<close>

datatype param = PInt int | PStr string

fun fmt :: "param \<Rightarrow> string" where
  "fmt (PInt i) = str_int i"
| "fmt (PStr s) = s"

text \<open>\<open>sep.join(xs)\<close>\<close>

fun join :: "string \<Rightarrow> string list \<Rightarrow> string" where
  "join sep [] = []"
| "join sep [x] = x"
| "join sep (x # y # ys) = x @ sep @ join sep (y # ys)"

section \<open>Cache key builder (reviews.py, lines 23-54)\<close>

text \<open>
  \<open>**params\<close> is a dict: an association list in insertion order whose names are
  distinct. \<open>sorted(params.items())\<close> compares the (name, value) tuples; as the names
  of a dict differ pairwise, the name alone decides, which is \<open>sort_key fst\<close>.
\<close>

definition query_params :: "(string \<times> param) list \<Rightarrow> string list" where
  "query_params params = map (\<lambda>(key, value). key @ ''='' @ fmt value) (sort_key fst params)"

definition get_reviews_cache_key :: "string \<Rightarrow> (string \<times> param) list \<Rightarrow> string" where
  "get_reviews_cache_key place_id params =
     (let base_key = ''url:/reviews/'' @ place_id in
      if params = [] then base_key
      else base_key @ ''?'' @ join ''&'' (query_params params))"

definition get_all_reviews_cache_key :: "(string \<times> param) list \<Rightarrow> string" where
  "get_all_reviews_cache_key params =
     (let base_key = ''url:/reviews/all'' in
      if params = [] then base_key
      else base_key @ ''?'' @ join ''&'' (query_params params))"

text \<open>\<open>place_type.lower()\<close> on ASCII letters.\<close>

definition lower_char :: "char \<Rightarrow> char" where
  "lower_char c =
     (if CHR ''A'' \<le> c \<and> c \<le> CHR ''Z'' then char_of (of_char c + (32::nat)) else c)"

definition get_place_cache_key :: "string \<Rightarrow> string \<Rightarrow> string" where
  "get_place_cache_key place_type place_id =
     (let place_type = map lower_char place_type in
      if place_type = ''thing-to-do'' then ''things-to-do:'' @ place_id
      else place_type @ ''s:'' @ place_id)"

section \<open>JSON values and the Python operations the routes apply to them\<close>

text \<open>
  A float is the real number the double holds, or one of the three special values that
  \<open>json.loads\<close> also accepts.
\<close>

datatype pyfloat = Finite real | PosInf | NegInf | NaN

datatype json =
    JNull
  | JBool bool
  | JInt int
  | JFloat pyfloat
  | JStr string
  | JList "json list"
  | JObj "(string \<times> json) list"

datatype exc =
    TypeError
  | ValueError
  | OverflowError
  | KeyError
  | IntegrityError string
  | SQLAlchemyError string
  | OtherException string

text \<open>\<open>except SQLAlchemyError\<close> also catches its subclass \<open>IntegrityError\<close>.\<close>

fun is_sqlalchemy_error :: "exc \<Rightarrow> bool" where
  "is_sqlalchemy_error (IntegrityError m) = True"
| "is_sqlalchemy_error (SQLAlchemyError m) = True"
| "is_sqlalchemy_error e = False"

text \<open>\<open>not data\<close> is \<open>\<not> truthy data\<close>.\<close>

fun truthy :: "json \<Rightarrow> bool" where
  "truthy JNull = False"
| "truthy (JBool b) = b"
| "truthy (JInt i) = (i \<noteq> 0)"
| "truthy (JFloat f) = (f \<noteq> Finite 0)"
| "truthy (JStr s) = (s \<noteq> [])"
| "truthy (JList xs) = (xs \<noteq> [])"
| "truthy (JObj d) = (d \<noteq> [])"

text \<open>
  \<open>key in data\<close>: a key of a dict, an element of a list, a substring of a str; any
  other JSON value is not iterable.
\<close>

fun py_contains :: "string \<Rightarrow> json \<Rightarrow> exc + bool" where
  "py_contains k (JObj d) = Inr (k \<in> set (map fst d))"
| "py_contains k (JList xs) = Inr (JStr k \<in> set xs)"
| "py_contains k (JStr s) = Inr (sublist k s)"
| "py_contains k v = Inl TypeError"

text \<open>\<open>data[key]\<close> with a str key.\<close>

fun py_getitem :: "json \<Rightarrow> string \<Rightarrow> exc + json" where
  "py_getitem (JObj d) k = (case map_of d k of Some v \<Rightarrow> Inr v | None \<Rightarrow> Inl KeyError)"
| "py_getitem v k = Inl TypeError"

text \<open>
  \<open>int(s)\<close> on a str reads a decimal literal: surrounding whitespace, an optional
  sign, then digits, single underscores allowed between two digits.
\<close>

definition is_space :: "char \<Rightarrow> bool" where
  "is_space c \<longleftrightarrow>
     c \<in> set [CHR 0x09, CHR 0x0A, CHR 0x0B, CHR 0x0C, CHR 0x0D, CHR 0x1C, CHR 0x1D,
              CHR 0x1E, CHR 0x1F, CHR 0x20, CHR 0x85, CHR 0xA0]"

definition is_digit :: "char \<Rightarrow> bool" where
  "is_digit c \<longleftrightarrow> c \<in> set ''0123456789''"

definition digit_val :: "char \<Rightarrow> nat" where
  "digit_val c = of_char c - 48"

definition strip :: "string \<Rightarrow> string" where
  "strip s = rev (dropWhile is_space (rev (dropWhile is_space s)))"

fun digits_value :: "nat \<Rightarrow> string \<Rightarrow> nat option" where
  "digits_value acc [] = Some acc"
| "digits_value acc (c # cs) =
     (if is_digit c then digits_value (10 * acc + digit_val c) cs
      else if c = CHR ''_'' then
        (case cs of
           [] \<Rightarrow> None
         | d # ds \<Rightarrow> if is_digit d then digits_value (10 * acc + digit_val d) ds else None)
      else None)"

definition unsigned_value :: "string \<Rightarrow> nat option" where
  "unsigned_value u =
     (case u of
        [] \<Rightarrow> None
      | c # cs \<Rightarrow> if is_digit c then digits_value (digit_val c) cs else None)"

definition parse_decimal :: "string \<Rightarrow> int option" where
  "parse_decimal s =
     (case strip s of
        [] \<Rightarrow> None
      | c # cs \<Rightarrow>
          if c = CHR ''-'' then map_option (\<lambda>n. - int n) (unsigned_value cs)
          else if c = CHR ''+'' then map_option int (unsigned_value cs)
          else map_option int (unsigned_value (c # cs)))"

text \<open>\<open>int(x)\<close> of a float truncates towards zero.\<close>

definition trunc :: "real \<Rightarrow> int" where
  "trunc x = (if x < 0 then \<lceil>x\<rceil> else \<lfloor>x\<rfloor>)"

fun py_int :: "json \<Rightarrow> exc + int" where
  "py_int (JInt i) = Inr i"
| "py_int (JBool b) = Inr (if b then 1 else 0)"
| "py_int (JFloat (Finite x)) = Inr (trunc x)"
| "py_int (JFloat NaN) = Inl ValueError"
| "py_int (JFloat f) = Inl OverflowError"
| "py_int (JStr s) = (case parse_decimal s of Some i \<Rightarrow> Inr i | None \<Rightarrow> Inl ValueError)"
| "py_int v = Inl TypeError"

section \<open>The stores a request works on\<close>

record review =
  r_id :: string
  r_user_id :: string
  r_place_id :: string
  r_rating :: int
  r_review :: json
  r_created_at :: string
  r_updated_at :: string

record user =
  u_id :: string
  u_full_name :: string
  u_avatar :: "string option"
  u_email :: string

text \<open>
  The bytes under a cache key: the \<open>json.dumps\<close> of a value, or bytes that
  \<open>json.loads\<close> rejects (\<open>Garbage []\<close> is the empty byte string).
\<close>

datatype cached = Serialized json | Garbage string

datatype redis_cmd =
    GET string
  | SETEX string int cached
  | KEYS string
  | DEL "string list"

datatype event =
    Redis redis_cmd
  | Db_commit
  | Db_commit_raised exc
  | Db_rollback
  | Call_histogram string "int option" "int option"
  | Call_invalidate string
  | Call_preference string
  | Log_warning string
  | Log_error string

text \<open>
  \<open>db_faults\<close> and \<open>redis_faults\<close> say which of the coming store and cache
  operations raise: each operation takes the head, \<open>None\<close> (or an empty list) lets
  it run. \<open>trace\<close> records, oldest first, the commands the cache server ran, the
  transaction ends, the collaborator calls and the warnings and errors logged.
\<close>

record world =
  reviews :: "review list"
  users :: "user list"
  cache :: "(string \<times> cached) list"
  db_faults :: "exc option list"
  redis_faults :: "exc option list"
  trace :: "event list"

definition emit :: "event \<Rightarrow> world \<Rightarrow> world" where
  "emit e w = w\<lparr>trace := trace w @ [e]\<rparr>"

definition new_events :: "world \<Rightarrow> world \<Rightarrow> event list" where
  "new_events w w' = drop (length (trace w)) (trace w')"

section \<open>The cache server\<close>

text \<open>
  \<open>KEYS pattern\<close> matches glob-style: \<open>*\<close> any run of characters, \<open>?\<close> any one
  character, \<open>[...]\<close> a class of characters and ranges (\<open>[^...]\<close> its complement),
  a backslash takes the next character literally. \<open>scan\<close> reads a pattern left to
  right; its first argument is the class being read, if any.
\<close>

datatype tok = Star | AnyChar | Lit char | Class bool "(char \<times> char) list"

fun scan :: "(bool \<times> (char \<times> char) list) option \<Rightarrow> string \<Rightarrow> tok list" where
  "scan None [] = []"
| "scan (Some (neg, items)) [] = [Class neg items]"
| "scan None (c # p) =
     (if c = CHR ''*'' then Star # scan None p
      else if c = CHR ''?'' then AnyChar # scan None p
      else if c = CHR ''['' then
        (case p of
           [] \<Rightarrow> scan (Some (False, [])) p
         | d # p' \<Rightarrow>
             if d = CHR ''^'' then scan (Some (True, [])) p' else scan (Some (False, [])) p)
      else if c = CHR 0x5C then
        (case p of [] \<Rightarrow> [Lit c] | d # p' \<Rightarrow> Lit d # scan None p')
      else Lit c # scan None p)"
| "scan (Some (neg, items)) (c # p) =
     (if c = CHR 0x5C \<and> p \<noteq> [] then
        (case p of [] \<Rightarrow> [] | d # p' \<Rightarrow> scan (Some (neg, items @ [(d, d)])) p')
      else if c = CHR '']'' then Class neg items # scan None p
      else
        (case p of
           m # e # p' \<Rightarrow>
             if m = CHR ''-'' then scan (Some (neg, items @ [(min c e, max c e)])) p'
             else scan (Some (neg, items @ [(c, c)])) p
         | _ \<Rightarrow> scan (Some (neg, items @ [(c, c)])) p))"

definition in_class :: "(char \<times> char) list \<Rightarrow> char \<Rightarrow> bool" where
  "in_class items x = list_ex (\<lambda>(lo, hi). lo \<le> x \<and> x \<le> hi) items"

fun matches :: "tok list \<Rightarrow> string \<Rightarrow> bool" where
  "matches [] s = (s = [])"
| "matches (Star # ts) [] = matches ts []"
| "matches (Star # ts) (x # s) = (matches ts (x # s) \<or> matches (Star # ts) s)"
| "matches (t # ts) [] = False"
| "matches (AnyChar # ts) (x # s) = matches ts s"
| "matches (Lit c # ts) (x # s) = (c = x \<and> matches ts s)"
| "matches (Class neg items # ts) (x # s) = (neg \<noteq> in_class items x \<and> matches ts s)"

definition glob :: "string \<Rightarrow> string \<Rightarrow> bool" where
  "glob pattern key = matches (scan None pattern) key"

text \<open>
  A command reaches the server unless the next entry of \<open>redis_faults\<close> makes the
  client raise (\<open>get_redis()\<close> included).
\<close>

definition redis_fault :: "world \<Rightarrow> exc option" where
  "redis_fault w = (case redis_faults w of [] \<Rightarrow> None | f # fs \<Rightarrow> f)"

definition redis_ran :: "redis_cmd \<Rightarrow> world \<Rightarrow> world" where
  "redis_ran cmd w = emit (Redis cmd) (w\<lparr>redis_faults := tl (redis_faults w)\<rparr>)"

definition redis_failed :: "world \<Rightarrow> world" where
  "redis_failed w = w\<lparr>redis_faults := tl (redis_faults w)\<rparr>"

definition redis_get :: "string \<Rightarrow> world \<Rightarrow> (exc + cached option) \<times> world" where
  "redis_get key w =
     (case redis_fault w of
        Some e \<Rightarrow> (Inl e, redis_failed w)
      | None \<Rightarrow> (Inr (map_of (cache w) key), redis_ran (GET key) w))"

definition redis_setex :: "string \<Rightarrow> int \<Rightarrow> cached \<Rightarrow> world \<Rightarrow> (exc + unit) \<times> world" where
  "redis_setex key seconds v w =
     (case redis_fault w of
        Some e \<Rightarrow> (Inl e, redis_failed w)
      | None \<Rightarrow>
          (Inr (),
           redis_ran (SETEX key seconds v)
             (w\<lparr>cache := (key, v) # filter (\<lambda>(k, _). k \<noteq> key) (cache w)\<rparr>)))"

definition redis_keys :: "string \<Rightarrow> world \<Rightarrow> (exc + string list) \<times> world" where
  "redis_keys pattern w =
     (case redis_fault w of
        Some e \<Rightarrow> (Inl e, redis_failed w)
      | None \<Rightarrow> (Inr (filter (glob pattern) (map fst (cache w))), redis_ran (KEYS pattern) w))"

definition redis_delete :: "string list \<Rightarrow> world \<Rightarrow> (exc + unit) \<times> world" where
  "redis_delete ks w =
     (case redis_fault w of
        Some e \<Rightarrow> (Inl e, redis_failed w)
      | None \<Rightarrow>
          (Inr (),
           redis_ran (DEL ks) (w\<lparr>cache := filter (\<lambda>(k, _). k \<notin> set ks) (cache w)\<rparr>)))"

section \<open>Review cache (reviews.py, lines 57-132)\<close>

definition json_loads :: "cached \<Rightarrow> exc + json" where
  "json_loads b = (case b of Serialized j \<Rightarrow> Inr j | Garbage s \<Rightarrow> Inl ValueError)"

text \<open>The result is Python's \<open>None\<close>, here \<open>JNull\<close>, or the value loaded.\<close>

definition get_cached_reviews :: "string \<Rightarrow> world \<Rightarrow> json \<times> world" where
  "get_cached_reviews cache_key w =
     (case redis_get cache_key w of
        (Inl e, w1) \<Rightarrow> (JNull, emit (Log_warning ''Redis cache retrieval error'') w1)
      | (Inr None, w1) \<Rightarrow> (JNull, w1)
      | (Inr (Some cached_data), w1) \<Rightarrow>
          (if cached_data = Garbage [] then (JNull, w1)
           else
             (case json_loads cached_data of
                Inl e \<Rightarrow> (JNull, emit (Log_warning ''Redis cache retrieval error'') w1)
              | Inr result \<Rightarrow> (result, w1))))"

definition cache_reviews :: "string \<Rightarrow> json \<Rightarrow> int \<Rightarrow> world \<Rightarrow> world" where
  "cache_reviews cache_key reviews_json expire_seconds w =
     (case redis_setex cache_key expire_seconds (Serialized reviews_json) w of
        (Inl e, w1) \<Rightarrow> emit (Log_warning ''Redis cache storage error'') w1
      | (Inr u, w1) \<Rightarrow> w1)"

definition invalidate_caches :: "string \<Rightarrow> world \<Rightarrow> world" where
  "invalidate_caches place_id w =
     (case redis_keys (''url:/reviews/'' @ place_id @ ''*'') w of
        (Inl e, w1) \<Rightarrow> emit (Log_warning ''Redis cache invalidation error'') w1
      | (Inr place_keys, w1) \<Rightarrow>
          (let keys_to_delete =
                 (if place_keys \<noteq> [] then place_keys else [])
                 @ [''hotels:'' @ place_id, ''restaurants:'' @ place_id,
                    ''things-to-do:'' @ place_id]
           in
           case (if keys_to_delete \<noteq> [] then redis_delete keys_to_delete w1
                 else (Inr (), w1)) of
             (Inl e, w2) \<Rightarrow> emit (Log_warning ''Redis cache invalidation error'') w2
           | (Inr u, w2) \<Rightarrow>
               (case redis_keys ''url:/reviews/all*'' w2 of
                  (Inl e, w3) \<Rightarrow> emit (Log_warning ''Redis cache invalidation error'') w3
                | (Inr all_reviews_keys, w3) \<Rightarrow>
                    (if all_reviews_keys \<noteq> [] then
                       (case redis_delete all_reviews_keys w3 of
                          (Inl e, w4) \<Rightarrow>
                            emit (Log_warning ''Redis cache invalidation error'') w4
                        | (Inr u, w4) \<Rightarrow> w4)
                     else w3))))"

section \<open>The review store and the collaborators\<close>

text \<open>
  What a request is given from outside: the place-existence oracle
  (\<open>check_place_exists\<close>), the rows that other requests commit between a create's
  duplicate check and its own commit, the text of the \<open>IntegrityError\<close> the store
  raises when the uniqueness constraint on (user, place) is violated (the constraint is
  declared in \<open>app.models\<close>, which is not among the sources), the id the store gives a
  new row, and the time.
\<close>

record env =
  place_exists :: "string \<Rightarrow> bool"
  race_rows :: "review list"
  unique_violation :: string
  fresh_id :: string
  now :: string

type_synonym response = "json \<times> nat"

text \<open>A store operation raises what the head of \<open>db_faults\<close> says, if anything.\<close>

definition db_fault :: "world \<Rightarrow> exc option" where
  "db_fault w = (case db_faults w of [] \<Rightarrow> None | f # fs \<Rightarrow> f)"

definition db_ran :: "world \<Rightarrow> world" where
  "db_ran w = w\<lparr>db_faults := tl (db_faults w)\<rparr>"

text \<open>\<open>User.query.filter_by(id=user_id).first()\<close>\<close>

definition query_user :: "string \<Rightarrow> world \<Rightarrow> (exc + user option) \<times> world" where
  "query_user user_id w =
     (case db_fault w of
        Some e \<Rightarrow> (Inl e, db_ran w)
      | None \<Rightarrow> (Inr (find (\<lambda>u. u_id u = user_id) (users w)), db_ran w))"

text \<open>
  \<open>UserReview.query.filter_by(user_id=..., place_id=...).first()\<close>. The identity of
  an optional-JWT route may be \<open>None\<close>, which equals no stored \<open>user_id\<close>.
\<close>

definition query_review ::
  "string option \<Rightarrow> string \<Rightarrow> world \<Rightarrow> (exc + review option) \<times> world" where
  "query_review identity place_id w =
     (case db_fault w of
        Some e \<Rightarrow> (Inl e, db_ran w)
      | None \<Rightarrow>
          (Inr (find (\<lambda>r. Some (r_user_id r) = identity \<and> r_place_id r = place_id) (reviews w)),
           db_ran w))"

text \<open>\<open>db.session.query(UserReview, User).join(User, UserReview.user_id == User.id)\<close>\<close>

definition joined :: "world \<Rightarrow> (review \<times> user) list" where
  "joined w =
     concat (map (\<lambda>r. map (Pair r) (filter (\<lambda>u. u_id u = r_user_id r) (users w))) (reviews w))"

definition query_review_user ::
  "string option \<Rightarrow> string \<Rightarrow> world \<Rightarrow> (exc + (review \<times> user) option) \<times> world" where
  "query_review_user identity place_id w =
     (case db_fault w of
        Some e \<Rightarrow> (Inl e, db_ran w)
      | None \<Rightarrow>
          (Inr (find (\<lambda>(r, u). Some (r_user_id r) = identity \<and> r_place_id r = place_id)
                  (joined w)),
           db_ran w))"

text \<open>
  \<open>db.session.add(review); db.session.commit()\<close>: the store refuses a second row
  for a (user, place) pair.
\<close>

definition commit_insert :: "env \<Rightarrow> review \<Rightarrow> world \<Rightarrow> (exc + unit) \<times> world" where
  "commit_insert env row w =
     (case db_fault w of
        Some e \<Rightarrow> (Inl e, emit (Db_commit_raised e) (db_ran w))
      | None \<Rightarrow>
          if list_ex (\<lambda>r. r_user_id r = r_user_id row \<and> r_place_id r = r_place_id row)
               (reviews w)
          then (Inl (IntegrityError (unique_violation env)),
                emit (Db_commit_raised (IntegrityError (unique_violation env))) (db_ran w))
          else (Inr (), emit Db_commit (db_ran (w\<lparr>reviews := reviews w @ [row]\<rparr>))))"

text \<open>The commit of a changed row, and of \<open>db.session.delete(review)\<close>.\<close>

definition commit_update :: "review \<Rightarrow> world \<Rightarrow> (exc + unit) \<times> world" where
  "commit_update row w =
     (case db_fault w of
        Some e \<Rightarrow> (Inl e, emit (Db_commit_raised e) (db_ran w))
      | None \<Rightarrow>
          (Inr (),
           emit Db_commit
             (db_ran (w\<lparr>reviews := map (\<lambda>r. if r_id r = r_id row then row else r) (reviews w)\<rparr>))))"

definition commit_delete :: "review \<Rightarrow> world \<Rightarrow> (exc + unit) \<times> world" where
  "commit_delete row w =
     (case db_fault w of
        Some e \<Rightarrow> (Inl e, emit (Db_commit_raised e) (db_ran w))
      | None \<Rightarrow>
          (Inr (),
           emit Db_commit
             (db_ran (w\<lparr>reviews := filter (\<lambda>r. r_id r \<noteq> r_id row) (reviews w)\<rparr>))))"

text \<open>Rows that other requests commit while this one is between two store operations.\<close>

definition concurrent_commits :: "env \<Rightarrow> world \<Rightarrow> world" where
  "concurrent_commits env w = w\<lparr>reviews := reviews w @ race_rows env\<rparr>"

text \<open>
  Modelled from the spec: \<open>update_place_rating_histogram\<close> and
  \<open>update_user_preference_cache\<close> are in \<open>app.utils\<close>, which is not among the
  sources. The spec has them as opaque, best-effort collaborators whose failures are
  logged and never surface, so a call returns and is recorded in the trace.
\<close>

definition update_place_rating_histogram ::
  "string \<Rightarrow> int option \<Rightarrow> int option \<Rightarrow> world \<Rightarrow> world" where
  "update_place_rating_histogram place_id old_rating new_rating w =
     emit (Call_histogram place_id old_rating new_rating) w"

definition update_user_preference_cache :: "string \<Rightarrow> world \<Rightarrow> world" where
  "update_user_preference_cache user_id w = emit (Call_preference user_id) w"

text \<open>
  Modelled from the spec: \<open>create_paging\<close> is in \<open>app.utils\<close>, which is not among
  the sources. The spec's paging envelope is \<open>{items, page, size, total_count,
  total_pages}\<close> with \<open>total_pages = ceil(total_count / size)\<close>.
\<close>

definition create_paging :: "json list \<Rightarrow> int \<Rightarrow> int \<Rightarrow> int \<Rightarrow> int \<Rightarrow> json" where
  "create_paging data page page_size offset total_count =
     JObj [(''items'', JList data), (''page'', JInt page), (''size'', JInt page_size),
           (''total_count'', JInt total_count),
           (''total_pages'', JInt (- ((- total_count) div page_size)))]"

section \<open>Routes (reviews.py, lines 135-703)\<close>

definition error_response :: "string \<Rightarrow> nat \<Rightarrow> response" where
  "error_response msg status = (JObj [(''error'', JStr msg)], status)"

definition avatar_json :: "user \<Rightarrow> json" where
  "avatar_json u = (case u_avatar u of None \<Rightarrow> JNull | Some a \<Rightarrow> JStr a)"

text \<open>\<open>request.get_json()\<close> raises on a body that is not JSON.\<close>

datatype request_body = Malformed | Body json

text \<open>A stretch of a route raises, returns a response, or goes on with a value.\<close>

datatype 'a step = Raised exc | Returned response | Next 'a

text \<open>
  Lines 154-162 and 388-397: \<open>int(data['rating'])\<close> and the range check, under
  \<open>except (ValueError, TypeError)\<close>.
\<close>

definition rating_except :: "exc \<Rightarrow> int step" where
  "rating_except e =
     (if e = ValueError \<or> e = TypeError
      then Returned (error_response ''Rating must be a valid integer between 1 and 5'' 400)
      else Raised e)"

definition parse_rating :: "json \<Rightarrow> int step" where
  "parse_rating data =
     (case py_getitem data ''rating'' of
        Inl e \<Rightarrow> rating_except e
      | Inr v \<Rightarrow>
          (case py_int v of
             Inl e \<Rightarrow> rating_except e
           | Inr rating \<Rightarrow>
               if rating < 1 \<or> rating > 5
               then Returned (error_response ''Rating must be between 1 and 5'' 400)
               else Next rating))"

text \<open>Line 151: \<open>'rating' not in data or 'review' not in data\<close>\<close>

definition missing_field :: "json \<Rightarrow> exc + bool" where
  "missing_field data =
     (case py_contains ''rating'' data of
        Inl e \<Rightarrow> Inl e
      | Inr has_rating \<Rightarrow>
          if \<not> has_rating then Inr True
          else (case py_contains ''review'' data of
                  Inl e \<Rightarrow> Inl e
                | Inr has_review \<Rightarrow> Inr (\<not> has_review)))"

text \<open>Line 381: \<open>'rating' not in data and 'review' not in data\<close>\<close>

definition no_field :: "json \<Rightarrow> exc + bool" where
  "no_field data =
     (case py_contains ''rating'' data of
        Inl e \<Rightarrow> Inl e
      | Inr has_rating \<Rightarrow>
          if has_rating then Inr False
          else (case py_contains ''review'' data of
                  Inl e \<Rightarrow> Inl e
                | Inr has_review \<Rightarrow> Inr (\<not> has_review)))"

definition review_json :: "review \<Rightarrow> json \<Rightarrow> json" where
  "review_json review user_json =
     JObj [(''id'', JStr (r_id review)), (''user'', user_json),
           (''place_id'', JStr (r_place_id review)), (''rating'', JInt (r_rating review)),
           (''review'', r_review review), (''created_at'', JStr (r_created_at review)),
           (''updated_at'', JStr (r_updated_at review))]"

subsection \<open>\<open>create_review\<close> (lines 135-240)\<close>

text \<open>The \<open>try\<close> block, lines 173-220.\<close>

definition create_try ::
  "env \<Rightarrow> string \<Rightarrow> string \<Rightarrow> int \<Rightarrow> json \<Rightarrow> user \<Rightarrow> world \<Rightarrow> (exc + response) \<times> world" where
  "create_try env user_id place_id rating data user w =
     (case query_review (Some user_id) place_id w of
        (Inl e, w1) \<Rightarrow> (Inl e, w1)
      | (Inr (Some existing_review), w1) \<Rightarrow>
          (Inr (error_response ''You have already reviewed this place'' 400), w1)
      | (Inr None, w1) \<Rightarrow>
          (case py_getitem data ''review'' of
             Inl e \<Rightarrow> (Inl e, w1)
           | Inr text \<Rightarrow>
               (let review = \<lparr>r_id = fresh_id env, r_user_id = user_id, r_place_id = place_id,
                               r_rating = rating, r_review = text,
                               r_created_at = now env, r_updated_at = now env\<rparr>
                in
                case commit_insert env review (concurrent_commits env w1) of
                  (Inl e, w2) \<Rightarrow> (Inl e, w2)
                | (Inr u, w2) \<Rightarrow>
                    (let w3 = update_place_rating_histogram place_id None (Some rating) w2;
                         w4 = invalidate_caches place_id (emit (Call_invalidate place_id) w3);
                         w5 = update_user_preference_cache user_id w4
                     in
                     (Inr (review_json review
                             (JObj [(''full_name'', JStr (u_full_name user)),
                                    (''avatar'', avatar_json user)]),
                           201),
                      w5)))))"

text \<open>The handlers, lines 222-240.\<close>

definition create_except :: "exc \<Rightarrow> world \<Rightarrow> (exc + response) \<times> world" where
  "create_except e w =
     (case e of
        IntegrityError msg \<Rightarrow>
          (let w1 = emit (Log_error ''Integrity error creating review'') (emit Db_rollback w) in
           if sublist ''user_reviews_user_id_fkey'' msg
           then (Inr (error_response ''User not found. Please log in again.'' 401), w1)
           else if sublist ''unique_user_review'' msg
           then (Inr (error_response ''You have already reviewed this place'' 400), w1)
           else (Inr (error_response ''Failed to create review due to data constraint'' 400), w1))
      | SQLAlchemyError msg \<Rightarrow>
          (Inr (error_response ''Failed to create review'' 500),
           emit (Log_error ''Error creating review'') (emit Db_rollback w))
      | _ \<Rightarrow> (Inl e, w))"

text \<open>
  \<open>jwt_required()\<close> lets the route run only with a verified identity, which is
  \<open>user_id\<close>.
\<close>

definition create_review ::
  "env \<Rightarrow> string \<Rightarrow> string \<Rightarrow> request_body \<Rightarrow> world \<Rightarrow> (exc + response) \<times> world" where
  "create_review env user_id place_id body w =
     (case body of
        Malformed \<Rightarrow>
          (Inr (error_response ''Invalid JSON format'' 400), emit (Log_error ''JSON parsing error'') w)
      | Body data \<Rightarrow>
          if \<not> truthy data then (Inr (error_response ''Request body must be valid JSON'' 400), w)
          else
            (case missing_field data of
               Inl e \<Rightarrow> (Inl e, w)
             | Inr True \<Rightarrow> (Inr (error_response ''Rating and review are required'' 400), w)
             | Inr False \<Rightarrow>
                 (case parse_rating data of
                    Raised e \<Rightarrow> (Inl e, w)
                  | Returned r \<Rightarrow> (Inr r, w)
                  | Next rating \<Rightarrow>
                      if \<not> place_exists env place_id
                      then (Inr (error_response ''Place not found'' 404), w)
                      else
                        (case query_user user_id w of
                           (Inl e, w1) \<Rightarrow> (Inl e, w1)
                         | (Inr None, w1) \<Rightarrow>
                             (Inr (error_response ''User not found. Please log in again.'' 401),
                              w1)
                         | (Inr (Some user), w1) \<Rightarrow>
                             (case create_try env user_id place_id rating data user w1 of
                                (Inl e, w2) \<Rightarrow> create_except e w2
                              | (Inr r, w2) \<Rightarrow> (Inr r, w2))))))"

subsection \<open>\<open>update_review\<close> (lines 365-460)\<close>

text \<open>
  Lines 386-397: \<open>rating\<close> is bound only when the body has the field; \<open>None\<close>
  stands for the unbound name.
\<close>

definition parse_optional_rating :: "json \<Rightarrow> int option step" where
  "parse_optional_rating data =
     (case py_contains ''rating'' data of
        Inl e \<Rightarrow> Raised e
      | Inr has_rating \<Rightarrow>
          if has_rating then
            (case parse_rating data of
               Raised e \<Rightarrow> Raised e
             | Returned r \<Rightarrow> Returned r
             | Next rating \<Rightarrow> Next (Some rating))
          else Next None)"

text \<open>
  The \<open>try\<close> block, lines 403-455. \<open>updated_at\<close> is maintained by the store (the
  column is declared in \<open>app.models\<close>, not among the sources; the spec says so).
  \<open>review.user\<close> is the joined user row; without one, \<open>review.user.full_name\<close>
  raises \<open>AttributeError\<close>.
\<close>

definition update_try ::
  "env \<Rightarrow> string \<Rightarrow> string \<Rightarrow> int option \<Rightarrow> json \<Rightarrow> world \<Rightarrow> (exc + response) \<times> world" where
  "update_try env user_id place_id rating data w =
     (case query_review (Some user_id) place_id w of
        (Inl e, w1) \<Rightarrow> (Inl e, w1)
      | (Inr None, w1) \<Rightarrow> (Inr (error_response ''Review not found'' 404), w1)
      | (Inr (Some review), w1) \<Rightarrow>
          (let old_rating = r_rating review;
               review1 = (case rating of None \<Rightarrow> review | Some n \<Rightarrow> review\<lparr>r_rating := n\<rparr>)
           in
           case py_contains ''review'' data of
             Inl e \<Rightarrow> (Inl e, w1)
           | Inr has_review \<Rightarrow>
               (case (if has_review then py_getitem data ''review'' else Inr (r_review review1)) of
                  Inl e \<Rightarrow> (Inl e, w1)
                | Inr text \<Rightarrow>
                    (let review2 = review1\<lparr>r_review := text, r_updated_at := now env\<rparr> in
                     case commit_update review2 w1 of
                       (Inl e, w2) \<Rightarrow> (Inl e, w2)
                     | (Inr u, w2) \<Rightarrow>
                         (let w3 = (if rating \<noteq> None \<and> old_rating \<noteq> r_rating review2
                                    then update_place_rating_histogram place_id
                                           (Some old_rating) (Some (r_rating review2)) w2
                                    else w2);
                              w4 = invalidate_caches place_id (emit (Call_invalidate place_id) w3);
                              w5 = update_user_preference_cache user_id w4
                          in
                          case find (\<lambda>u. u_id u = r_user_id review2) (users w5) of
                            None \<Rightarrow> (Inl (OtherException ''AttributeError''), w5)
                          | Some user \<Rightarrow>
                              (Inr (review_json review2
                                      (JObj [(''full_name'', JStr (u_full_name user)),
                                             (''avatar'', avatar_json user)]),
                                    200),
                               w5))))))"

definition update_except :: "exc \<Rightarrow> world \<Rightarrow> (exc + response) \<times> world" where
  "update_except e w =
     (if is_sqlalchemy_error e
      then (Inr (error_response ''Failed to update review'' 500),
            emit (Log_error ''Error updating review'') (emit Db_rollback w))
      else (Inl e, w))"

definition update_review ::
  "env \<Rightarrow> string \<Rightarrow> string \<Rightarrow> request_body \<Rightarrow> world \<Rightarrow> (exc + response) \<times> world" where
  "update_review env user_id place_id body w =
     (case body of
        Malformed \<Rightarrow>
          (Inr (error_response ''Invalid JSON format'' 400), emit (Log_error ''JSON parsing error'') w)
      | Body data \<Rightarrow>
          if \<not> truthy data then (Inr (error_response ''Request body must be valid JSON'' 400), w)
          else
            (case no_field data of
               Inl e \<Rightarrow> (Inl e, w)
             | Inr True \<Rightarrow>
                 (Inr (error_response
                         ''At least one field (rating or review) must be provided'' 400), w)
             | Inr False \<Rightarrow>
                 (case parse_optional_rating data of
                    Raised e \<Rightarrow> (Inl e, w)
                  | Returned r \<Rightarrow> (Inr r, w)
                  | Next rating \<Rightarrow>
                      if \<not> place_exists env place_id
                      then (Inr (error_response ''Place not found'' 404), w)
                      else
                        (case update_try env user_id place_id rating data w of
                           (Inl e, w2) \<Rightarrow> update_except e w2
                         | (Inr r, w2) \<Rightarrow> (Inr r, w2)))))"

subsection \<open>\<open>delete_review\<close> (lines 463-508)\<close>

definition delete_try ::
  "string \<Rightarrow> string \<Rightarrow> world \<Rightarrow> (exc + response) \<times> world" where
  "delete_try user_id place_id w =
     (case query_review (Some user_id) place_id w of
        (Inl e, w1) \<Rightarrow> (Inl e, w1)
      | (Inr None, w1) \<Rightarrow> (Inr (error_response ''Review not found'' 404), w1)
      | (Inr (Some review), w1) \<Rightarrow>
          (let old_rating = r_rating review in
           case commit_delete review w1 of
             (Inl e, w2) \<Rightarrow> (Inl e, w2)
           | (Inr u, w2) \<Rightarrow>
               (let w3 = update_place_rating_histogram place_id (Some old_rating) None w2;
                    w4 = invalidate_caches place_id (emit (Call_invalidate place_id) w3);
                    w5 = update_user_preference_cache user_id w4
                in (Inr (JObj [(''message'', JStr ''Review deleted successfully'')], 200), w5))))"

definition delete_except :: "exc \<Rightarrow> world \<Rightarrow> (exc + response) \<times> world" where
  "delete_except e w =
     (if is_sqlalchemy_error e
      then (Inr (error_response ''Failed to delete review'' 500),
            emit (Log_error ''Error deleting review'') (emit Db_rollback w))
      else (Inl e, w))"

definition delete_review ::
  "env \<Rightarrow> string \<Rightarrow> string \<Rightarrow> world \<Rightarrow> (exc + response) \<times> world" where
  "delete_review env user_id place_id w =
     (if \<not> place_exists env place_id then (Inr (error_response ''Place not found'' 404), w)
      else
        (case delete_try user_id place_id w of
           (Inl e, w2) \<Rightarrow> delete_except e w2
         | (Inr r, w2) \<Rightarrow> (Inr r, w2)))"

subsection \<open>\<open>get_place_reviews\<close> (lines 243-362)\<close>

text \<open>
  \<open>request.args.get(key, default=..., type=...)\<close>: the first value given for the
  key, converted; the default when the key is absent or the conversion raises
  \<open>ValueError\<close>.
\<close>

definition args_get_int :: "(string \<times> string) list \<Rightarrow> string \<Rightarrow> int \<Rightarrow> int" where
  "args_get_int args key dflt =
     (case map_of args key of
        None \<Rightarrow> dflt
      | Some rv \<Rightarrow> (case py_int (JStr rv) of Inl e \<Rightarrow> dflt | Inr n \<Rightarrow> n))"

definition args_get_str :: "(string \<times> string) list \<Rightarrow> string \<Rightarrow> string \<Rightarrow> string" where
  "args_get_str args key dflt = (case map_of args key of None \<Rightarrow> dflt | Some rv \<Rightarrow> rv)"

text \<open>
  \<open>.count()\<close> and \<open>.order_by(...).offset(offset).limit(size).all()\<close> over the
  reviews of the place, joined with their users. Rows that tie on the sort column stay
  in insertion order. Timestamps are ISO strings, whose order is that of the times.
\<close>

definition ascending :: "string \<Rightarrow> (review \<times> user) list \<Rightarrow> (review \<times> user) list" where
  "ascending sort_by rows =
     (if sort_by = ''rating'' then sort_key (\<lambda>(r, u). r_rating r) rows
      else if sort_by = ''updated_at'' then sort_key (\<lambda>(r, u). r_updated_at r) rows
      else sort_key (\<lambda>(r, u). r_created_at r) rows)"

definition ordered :: "string \<Rightarrow> string \<Rightarrow> (review \<times> user) list \<Rightarrow> (review \<times> user) list" where
  "ordered sort_by order rows =
     (if order = ''asc'' then ascending sort_by rows else rev (ascending sort_by (rev rows)))"

definition query_count :: "string \<Rightarrow> world \<Rightarrow> (exc + int) \<times> world" where
  "query_count place_id w =
     (case db_fault w of
        Some e \<Rightarrow> (Inl e, db_ran w)
      | None \<Rightarrow>
          (Inr (int (length (filter (\<lambda>r. r_place_id r = place_id) (reviews w)))), db_ran w))"

definition query_page ::
  "string \<Rightarrow> string \<Rightarrow> string \<Rightarrow> int \<Rightarrow> int \<Rightarrow> world \<Rightarrow> (exc + (review \<times> user) list) \<times> world" where
  "query_page place_id sort_by order offset limit w =
     (case db_fault w of
        Some e \<Rightarrow> (Inl e, db_ran w)
      | None \<Rightarrow>
          (Inr (take (nat limit) (drop (nat offset)
                  (ordered sort_by order (filter (\<lambda>(r, u). r_place_id r = place_id) (joined w))))),
           db_ran w))"

definition listed_review_json :: "review \<times> user \<Rightarrow> json" where
  "listed_review_json p =
     (case p of (review, user) \<Rightarrow>
        review_json review
          (JObj [(''full_name'', JStr (u_full_name user)), (''avatar'', avatar_json user),
                 (''user_id'', JStr (u_id user))]))"

text \<open>The \<open>try\<close> block, lines 292-358, and its handler, lines 360-362.\<close>

definition fetch_try ::
  "string \<Rightarrow> string \<Rightarrow> int \<Rightarrow> int \<Rightarrow> string \<Rightarrow> string \<Rightarrow> world \<Rightarrow> (exc + response) \<times> world" where
  "fetch_try place_id cache_key page page_size sort_by order w =
     (case query_count place_id w of
        (Inl e, w1) \<Rightarrow> (Inl e, w1)
      | (Inr total_count, w1) \<Rightarrow>
          (case query_page place_id sort_by order ((page - 1) * page_size) page_size w1 of
             (Inl e, w2) \<Rightarrow> (Inl e, w2)
           | (Inr rows, w2) \<Rightarrow>
               (let response = create_paging (map listed_review_json rows) page page_size
                                 ((page - 1) * page_size) total_count;
                    w3 = cache_reviews cache_key response 3600 w2
                in (Inr (response, 200), w3))))"

definition fetch_except :: "exc \<Rightarrow> world \<Rightarrow> (exc + response) \<times> world" where
  "fetch_except e w =
     (if is_sqlalchemy_error e
      then (Inr (error_response ''Failed to fetch reviews'' 500),
            emit (Log_error ''Error fetching reviews'') w)
      else (Inl e, w))"

definition get_place_reviews ::
  "env \<Rightarrow> string \<Rightarrow> (string \<times> string) list \<Rightarrow> world \<Rightarrow> (exc + response) \<times> world" where
  "get_place_reviews env place_id args w =
     (let page = args_get_int args ''page'' 1;
          page_size = args_get_int args ''size'' 10;
          sort_by = args_get_str args ''sort_by'' ''created_at'';
          order = args_get_str args ''order'' ''desc''
      in
      if page < 1 then (Inr (error_response ''Page must be greater than 0'' 400), w)
      else if page_size < 1 \<or> page_size > 100
      then (Inr (error_response ''Size must be between 1 and 100'' 400), w)
      else if sort_by \<notin> set [''rating'', ''updated_at'', ''created_at'']
      then (Inr (error_response
                   (''Invalid sort_by. Must be one of: ''
                    @ join '', '' [''rating'', ''updated_at'', ''created_at'']) 400), w)
      else if order \<notin> set [''asc'', ''desc'']
      then (Inr (error_response
                   (''Invalid order. Must be one of: '' @ join '', '' [''asc'', ''desc'']) 400), w)
      else if \<not> place_exists env place_id
      then (Inr (error_response ''Place not found'' 404), w)
      else
        (let cache_key = get_reviews_cache_key place_id
                           [(''page'', PInt page), (''size'', PInt page_size),
                            (''sort_by'', PStr sort_by), (''order'', PStr order)]
         in
         case get_cached_reviews cache_key w of
           (cached_data, w1) \<Rightarrow>
             if cached_data \<noteq> JNull then (Inr (cached_data, 200), w1)
             else
               (case fetch_try place_id cache_key page page_size sort_by order w1 of
                  (Inl e, w2) \<Rightarrow> fetch_except e w2
                | (Inr r, w2) \<Rightarrow> (Inr r, w2))))"

subsection \<open>\<open>get_my_place_review\<close> (lines 655-703)\<close>

text \<open>
  \<open>jwt_required(optional=True)\<close>: a request without a token runs the route with the
  identity \<open>None\<close>.
\<close>

definition get_my_place_review ::
  "env \<Rightarrow> string option \<Rightarrow> string \<Rightarrow> world \<Rightarrow> (exc + response) \<times> world" where
  "get_my_place_review env identity place_id w =
     (if \<not> place_exists env place_id then (Inr (error_response ''Place not found'' 404), w)
      else
        (case query_review_user identity place_id w of
           (Inl e, w1) \<Rightarrow>
             if is_sqlalchemy_error e
             then (Inr (error_response ''Failed to fetch review'' 500),
                   emit (Log_error ''Error fetching user review'') w1)
             else (Inl e, w1)
         | (Inr None, w1) \<Rightarrow>
             (Inr (error_response ''You have not reviewed this place yet'' 404), w1)
         | (Inr (Some (review, user)), w1) \<Rightarrow>
             (Inr (review_json review
                     (JObj [(''user_id'', JStr (u_id user)),
                            (''full_name'', JStr (u_full_name user)),
                            (''avatar'', avatar_json user)]),
                   200),
              w1)))"

section \<open>The handler of unhandled exceptions (__init__.py, lines 32-37)\<close>

text \<open>
  \<open>APIResponse.error\<close> is in \<open>app/utils/response.py\<close>, which is not among the
  sources: it is the parameter \<open>api_error\<close>, given the message and the status the
  handler passes. \<open>InternalServerError.name\<close> is werkzeug's
  \<open>Internal Server Error\<close>.
\<close>

definition exception_handler :: "(string \<Rightarrow> nat \<Rightarrow> 'r) \<Rightarrow> exc \<Rightarrow> world \<Rightarrow> 'r \<times> world" where
  "exception_handler api_error e w =
     (api_error ''Internal Server Error'' 200, emit (Log_error ''Unhandled exception'') w)"

text \<open>
  What an invalidation is measured by: the key lists of the \<open>DEL\<close> commands in a
  trace; a place id in which no character opens a class or escapes in a \<open>KEYS\<close>
  pattern; a run of cache commands none of which fails; the keys the first \<open>DEL\<close>
  of \<open>invalidate_caches\<close> is given, and the all-reviews keys still cached after it.
\<close>

fun del_batches :: "event list \<Rightarrow> string list list" where
  "del_batches [] = []"
| "del_batches (Redis (DEL ks) # es) = ks # del_batches es"
| "del_batches (e # es) = del_batches es"

definition plain :: "string \<Rightarrow> bool" where
  "plain p \<longleftrightarrow> (\<forall>c\<in>set p. c \<noteq> CHR ''['' \<and> c \<noteq> CHR 0x5C)"

definition no_fault :: "nat \<Rightarrow> exc option list \<Rightarrow> bool" where
  "no_fault n fs \<longleftrightarrow> (\<forall>f\<in>set (take n fs). f = None)"

definition place_batch :: "string \<Rightarrow> world \<Rightarrow> string list" where
  "place_batch place_id w =
     filter (glob (''url:/reviews/'' @ place_id @ ''*'')) (map fst (cache w))
     @ [''hotels:'' @ place_id, ''restaurants:'' @ place_id, ''things-to-do:'' @ place_id]"

definition all_batch :: "string \<Rightarrow> world \<Rightarrow> string list" where
  "all_batch place_id w =
     filter (glob ''url:/reviews/all*'')
       (map fst (filter (\<lambda>(k, _). k \<notin> set (place_batch place_id w)) (cache w)))"

text \<open>A cache that holds one entry of the all-reviews listing and nothing else.\<close>

definition w_all :: world where
  "w_all = \<lparr>reviews = [], users = [],
            cache = [(''url:/reviews/all'', Serialized (JObj []))],
            db_faults = [], redis_faults = [], trace = []\<rparr>"

section \<open>Properties\<close>

lemma sort_key_fst_unique:
  assumes "distinct (map fst P1)" "distinct (map fst P2)" "set P1 = set P2"
  shows "sort_key fst P1 = sort_key fst (P2 :: (string \<times> 'v) list)"
proof -
  let ?s1 = "sort_key fst P1" and ?s2 = "sort_key fst P2"
  have inj: "inj_on fst (set P1)"
    using assms(1) by (simp add: distinct_map)
  have d1: "distinct (map fst ?s1)"
    using assms(1) by (simp add: distinct_map)
  have d2: "distinct (map fst ?s2)"
    using assms(2) by (simp add: distinct_map)
  have "set (map fst ?s1) = set (map fst ?s2)"
    using assms(3) by simp
  then have "map fst ?s1 = map fst ?s2"
    using d1 d2 by (intro sorted_distinct_set_unique) (simp_all only: sorted_sort_key)
  moreover have "inj_on fst (set ?s1 \<union> set ?s2)"
    using inj assms(3) by simp
  ultimately show ?thesis
    by (simp add: inj_on_map_eq_map)
qed

text \<open>
  C2. Two parameter dicts that hold the same (name, value) pairs, whatever their
  insertion orders, give the same key, in the place-review scheme and in the
  all-reviews scheme.
\<close>

theorem cache_key_insertion_order:
  assumes "distinct (map fst P1)" and "distinct (map fst P2)" and "set P1 = set P2"
  shows "get_reviews_cache_key place_id P1 = get_reviews_cache_key place_id P2
       \<and> get_all_reviews_cache_key P1 = get_all_reviews_cache_key P2"
proof -
  have "sort_key fst P1 = sort_key fst P2"
    using assms by (rule sort_key_fst_unique)
  then have q: "query_params P1 = query_params P2"
    by (simp add: query_params_def)
  have e: "(P1 = []) = (P2 = [])"
    using assms(3) by auto
  show ?thesis
    unfolding get_reviews_cache_key_def get_all_reviews_cache_key_def q e
    by simp
qed

theorem cache_key_insertion_order_witness:
  "distinct (map fst [(''page'', PInt 1), (''size'', PInt 10)])
   \<and> distinct (map fst [(''size'', PInt 10), (''page'', PInt 1)])
   \<and> set [(''page'', PInt 1), (''size'', PInt 10)] = set [(''size'', PInt 10), (''page'', PInt 1)]
   \<and> get_reviews_cache_key ''hotel-1'' [(''page'', PInt 1), (''size'', PInt 10)]
       = get_reviews_cache_key ''hotel-1'' [(''size'', PInt 10), (''page'', PInt 1)]
   \<and> get_all_reviews_cache_key [(''page'', PInt 1), (''size'', PInt 10)]
       = get_all_reviews_cache_key [(''size'', PInt 10), (''page'', PInt 1)]"
  using cache_key_insertion_order
    [of "[(''page'', PInt 1), (''size'', PInt 10)]" "[(''size'', PInt 10), (''page'', PInt 1)]"
      "''hotel-1''"]
  by auto

subsection \<open>Invalidation\<close>

lemma matches_Star_all: "matches [Star] s"
  by (induction s) auto

lemma matches_Star_skip: "matches ts s \<Longrightarrow> matches (Star # ts) s"
  by (cases s) auto

lemma matches_plain_prefix:
  "plain p \<Longrightarrow> matches (scan None q) s \<Longrightarrow> matches (scan None (p @ q)) (p @ s)"
proof (induction p)
  case Nil
  then show ?case by simp
next
  case (Cons c p)
  then have ih: "matches (scan None (p @ q)) (p @ s)"
    by (simp add: plain_def)
  from Cons.prems(1) have c: "c \<noteq> CHR ''[''" "c \<noteq> CHR 0x5C"
    by (simp_all add: plain_def)
  show ?case
    using ih c by (simp add: matches_Star_skip)
qed

lemma glob_prefix_star: "plain p \<Longrightarrow> glob (p @ ''*'') (p @ s)"
  unfolding glob_def by (rule matches_plain_prefix) (simp_all add: matches_Star_all)

lemma no_fault_Suc:
  "no_fault (Suc n) fs \<Longrightarrow> (case fs of [] \<Rightarrow> None | f # r \<Rightarrow> f) = None \<and> no_fault n (tl fs)"
  by (cases fs) (auto simp: no_fault_def)

lemma redis_ran_simps [simp]:
  "cache (redis_ran c w) = cache w"
  "trace (redis_ran c w) = trace w @ [Redis c]"
  "redis_faults (redis_ran c w) = tl (redis_faults w)"
  "reviews (redis_ran c w) = reviews w"
  "users (redis_ran c w) = users w"
  "db_faults (redis_ran c w) = db_faults w"
  by (simp_all add: redis_ran_def emit_def)

lemma redis_keys_ok:
  "no_fault (Suc n) (redis_faults w) \<Longrightarrow>
   redis_keys p w = (Inr (filter (glob p) (map fst (cache w))), redis_ran (KEYS p) w)
   \<and> no_fault n (redis_faults (redis_ran (KEYS p) w))"
  using no_fault_Suc [of n "redis_faults w"] by (simp add: redis_keys_def redis_fault_def)

lemma redis_delete_ok:
  "no_fault (Suc n) (redis_faults w) \<Longrightarrow>
   redis_delete ks w =
     (Inr (), redis_ran (DEL ks) (w\<lparr>cache := filter (\<lambda>(k, _). k \<notin> set ks) (cache w)\<rparr>))
   \<and> no_fault n (redis_faults (redis_ran (DEL ks) (w\<lparr>cache := filter (\<lambda>(k, _). k \<notin> set ks) (cache w)\<rparr>)))"
  using no_fault_Suc [of n "redis_faults w"] by (simp add: redis_delete_def redis_fault_def)

lemma invalidate_caches_ok:
  assumes "no_fault 4 (redis_faults w)"
  shows "cache (invalidate_caches place_id w) =
           filter (\<lambda>(k, _). k \<notin> set (all_batch place_id w))
             (filter (\<lambda>(k, _). k \<notin> set (place_batch place_id w)) (cache w))"
    and "trace (invalidate_caches place_id w) =
           trace w @ [Redis (KEYS (''url:/reviews/'' @ place_id @ ''*'')),
                      Redis (DEL (place_batch place_id w)),
                      Redis (KEYS ''url:/reviews/all*'')]
           @ (if all_batch place_id w = [] then [] else [Redis (DEL (all_batch place_id w))])"
proof -
  let ?p1 = "''url:/reviews/'' @ place_id @ ''*''"
  let ?ks1 = "place_batch place_id w"
  let ?ks2 = "all_batch place_id w"
  let ?w1 = "redis_ran (KEYS ?p1) w"
  let ?w2 = "redis_ran (DEL ?ks1) (?w1\<lparr>cache := filter (\<lambda>(k, _). k \<notin> set ?ks1) (cache ?w1)\<rparr>)"
  let ?w3 = "redis_ran (KEYS ''url:/reviews/all*'') ?w2"
  let ?w4 = "redis_ran (DEL ?ks2) (?w3\<lparr>cache := filter (\<lambda>(k, _). k \<notin> set ?ks2) (cache ?w3)\<rparr>)"
  have f4: "no_fault (Suc 3) (redis_faults w)"
    using assms by (simp add: eval_nat_numeral)
  have k1: "redis_keys ?p1 w = (Inr (filter (glob ?p1) (map fst (cache w))), ?w1)"
    and f3: "no_fault (Suc 2) (redis_faults ?w1)"
    using redis_keys_ok [OF f4, of ?p1] by (simp_all add: eval_nat_numeral)
  have d1: "redis_delete ?ks1 ?w1 = (Inr (), ?w2)"
    and f2: "no_fault (Suc 1) (redis_faults ?w2)"
    using redis_delete_ok [OF f3, of ?ks1] by (simp_all add: eval_nat_numeral)
  have k2: "redis_keys ''url:/reviews/all*'' ?w2 = (Inr ?ks2, ?w3)"
    and f1: "no_fault (Suc 0) (redis_faults ?w3)"
    using redis_keys_ok [OF f2, of "''url:/reviews/all*''"] by (simp_all add: all_batch_def)
  have d2: "redis_delete ?ks2 ?w3 = (Inr (), ?w4)"
    using redis_delete_ok [OF f1, of ?ks2] by simp
  have e1: "(if filter (glob ?p1) (map fst (cache w)) \<noteq> []
              then filter (glob ?p1) (map fst (cache w)) else [])
             @ [''hotels:'' @ place_id, ''restaurants:'' @ place_id, ''things-to-do:'' @ place_id]
             = ?ks1"
    by (simp add: place_batch_def)
  have ne: "(?ks1 \<noteq> []) = True"
    by (simp add: place_batch_def)
  have run: "invalidate_caches place_id w = (if ?ks2 = [] then ?w3 else ?w4)"
    unfolding invalidate_caches_def k1 prod.case sum.case Let_def e1 ne if_True d1 k2
    by (cases "?ks2 = []") (simp_all only: d2 prod.case sum.case if_True if_False simp_thms)
  show "cache (invalidate_caches place_id w) =
           filter (\<lambda>(k, _). k \<notin> set ?ks2) (filter (\<lambda>(k, _). k \<notin> set ?ks1) (cache w))"
    unfolding run by (cases "?ks2 = []") simp_all
  show "trace (invalidate_caches place_id w) =
           trace w @ [Redis (KEYS ?p1), Redis (DEL ?ks1), Redis (KEYS ''url:/reviews/all*'')]
           @ (if ?ks2 = [] then [] else [Redis (DEL ?ks2)])"
    unfolding run by (cases "?ks2 = []") simp_all
qed


lemma reviews_key_prefix:
  "\<exists>s. get_reviews_cache_key place_id params = (''url:/reviews/'' @ place_id) @ s"
  by (cases "params = []") (simp_all add: get_reviews_cache_key_def Let_def)

lemma all_reviews_key_prefix:
  "\<exists>s. get_all_reviews_cache_key params = ''url:/reviews/all'' @ s"
  by (cases "params = []") (simp_all add: get_all_reviews_cache_key_def Let_def)

lemma plain_reviews_prefix: "plain place_id \<Longrightarrow> plain (''url:/reviews/'' @ place_id)"
  by (simp add: plain_def)

lemma place_batch_covers:
  assumes "plain place_id" and "k \<in> set (map fst (cache w))"
    and "k = (''url:/reviews/'' @ place_id) @ s"
  shows "k \<in> set (place_batch place_id w)"
proof -
  have "glob ((''url:/reviews/'' @ place_id) @ ''*'') k"
    unfolding assms(3) using assms(1) by (intro glob_prefix_star plain_reviews_prefix)
  then show ?thesis
    using assms(2) by (simp add: place_batch_def)
qed

lemma all_batch_covers:
  assumes "k \<in> set (map fst (cache w))" and "k \<notin> set (place_batch place_id w)"
    and "k = ''url:/reviews/all'' @ s"
  shows "k \<in> set (all_batch place_id w)"
proof -
  have "glob (''url:/reviews/all'' @ ''*'') k"
    unfolding assms(3) by (rule glob_prefix_star) (simp add: plain_def)
  then show ?thesis
    using assms(1,2) by (force simp: all_batch_def)
qed

text \<open>
  C1 (as amended). For a place id without \<open>[\<close> and backslash, and when none of the
  four cache commands fails, \<open>invalidate_caches\<close> leaves no key of the place's
  review listing, no key of the all-reviews listing and none of the three place-entity
  keys in the cache. It deletes in two batches: the place's listing keys and the three
  entity keys in a first \<open>DEL\<close>, always issued; the all-reviews keys in a second
  \<open>DEL\<close>, issued only when such keys are found.
\<close>

theorem invalidate_caches_batches:
  assumes "plain place_id" and "no_fault 4 (redis_faults w)"
  shows "get_reviews_cache_key place_id params
           \<notin> set (map fst (cache (invalidate_caches place_id w)))
       \<and> get_all_reviews_cache_key params'
           \<notin> set (map fst (cache (invalidate_caches place_id w)))
       \<and> (\<forall>t\<in>set [''hotel'', ''restaurant'', ''thing-to-do''].
            get_place_cache_key t place_id
              \<notin> set (map fst (cache (invalidate_caches place_id w))))
       \<and> del_batches (new_events w (invalidate_caches place_id w)) =
           place_batch place_id w
             # (if all_batch place_id w = [] then [] else [all_batch place_id w])"
proof -
  let ?w' = "invalidate_caches place_id w"
  note c = invalidate_caches_ok(1) [OF assms(2), of place_id]
  have sub: "k \<in> set (map fst (cache ?w')) \<Longrightarrow>
      k \<in> set (map fst (cache w)) \<and> k \<notin> set (place_batch place_id w)
      \<and> k \<notin> set (all_batch place_id w)" for k
    unfolding c by auto
  have a: "get_reviews_cache_key place_id params \<notin> set (map fst (cache ?w'))"
    using sub place_batch_covers [OF assms(1)] reviews_key_prefix [of place_id params]
    by metis
  have b: "get_all_reviews_cache_key params' \<notin> set (map fst (cache ?w'))"
    using sub all_batch_covers all_reviews_key_prefix [of params'] by metis
  have three: "''hotels:'' @ place_id \<in> set (place_batch place_id w)"
    "''restaurants:'' @ place_id \<in> set (place_batch place_id w)"
    "''things-to-do:'' @ place_id \<in> set (place_batch place_id w)"
    by (simp_all add: place_batch_def)
  have keys: "get_place_cache_key ''hotel'' place_id = ''hotels:'' @ place_id"
    "get_place_cache_key ''restaurant'' place_id = ''restaurants:'' @ place_id"
    "get_place_cache_key ''thing-to-do'' place_id = ''things-to-do:'' @ place_id"
    by (simp_all add: get_place_cache_key_def lower_char_def less_eq_char_def)
  have c3: "\<forall>t\<in>set [''hotel'', ''restaurant'', ''thing-to-do''].
      get_place_cache_key t place_id \<notin> set (map fst (cache ?w'))"
    using sub three by (auto simp only: keys list.set insert_iff empty_iff)
  have d: "del_batches (new_events w ?w') =
      place_batch place_id w # (if all_batch place_id w = [] then [] else [all_batch place_id w])"
    unfolding new_events_def invalidate_caches_ok(2) [OF assms(2)] by simp
  show ?thesis
    using a b c3 d by blast
qed

theorem invalidate_caches_batches_witness:
  "plain ''hotel-1'' \<and> no_fault 4 (redis_faults w_all)
   \<and> get_reviews_cache_key ''hotel-1'' [(''page'', PInt 1)]
        \<notin> set (map fst (cache (invalidate_caches ''hotel-1'' w_all)))
   \<and> get_all_reviews_cache_key []
        \<notin> set (map fst (cache (invalidate_caches ''hotel-1'' w_all)))"
  using invalidate_caches_batches [of "''hotel-1''" w_all "[(''page'', PInt 1)]" "[]"]
  by (simp add: plain_def no_fault_def w_all_def)

text \<open>
  With one all-reviews entry cached, invalidating a place issues two \<open>DEL\<close>
  commands, not one.
\<close>

theorem invalidate_caches_two_deletes:
  "del_batches (new_events w_all (invalidate_caches ''hotel-1'' w_all)) =
     [[''hotels:hotel-1'', ''restaurants:hotel-1'', ''things-to-do:hotel-1''],
      [''url:/reviews/all'']]"
  by (simp add: w_all_def invalidate_caches_def redis_keys_def redis_delete_def redis_fault_def
      redis_ran_def emit_def new_events_def glob_def)

end
